theory Spec2Isabelle
  imports Main
begin

section \<open>The content graph queried by the template\<close>

text \<open>
  The repository's code is the page template \<^verbatim>\<open>src/templates/blog-post.js\<close>: a GraphQL
  page query (\<^verbatim>\<open>pageQuery\<close>) and the component \<^verbatim>\<open>BlogPostTemplate\<close> that renders the
  query's result. The markdown files are content.

  A markdown node of the content graph, before any field is resolved: its id, the
  \<^verbatim>\<open>fields.slug\<close> the query filters on, the markdown source and the front-matter.
\<close>

datatype month_of_year =
  January | February | March | April | May | June
  | July | August | September | October | November | December

record calendar_date =
  year :: nat
  month :: month_of_year
  day :: nat

text \<open>
  The front-matter has the same three fields before and after the query; only the type of
  \<^verbatim>\<open>date\<close> changes (a calendar date in the file, a display string in the query's
  result). \<^verbatim>\<open>description\<close> is nullable: \<open>None\<close> is JavaScript's \<^verbatim>\<open>null\<close>.
\<close>

record 'd frontmatter_record =
  title :: string
  date :: 'd
  description :: "string option"

record markdown_node =
  node_id :: string
  slug :: string
  rawBody :: string
  node_frontmatter :: "calendar_date frontmatter_record"

text \<open>The selection set of \<^verbatim>\<open>markdownRemark\<close> in the query: id, excerpt, html, frontmatter.\<close>

record remark_record =
  remark_id :: string
  excerpt :: string
  html :: string
  frontmatter :: "string frontmatter_record"

record siteMetadata_record =
  site_title :: string

record site_record =
  siteMetadata :: siteMetadata_record

text \<open>
  The \<^verbatim>\<open>data\<close> prop of the template. \<^verbatim>\<open>markdownRemark\<close> is \<^verbatim>\<open>null\<close> when no node
  matches the filter.
\<close>

record data_record =
  markdownRemark :: "remark_record option"
  site :: site_record

record location_record =
  pathname :: string

section \<open>Field resolvers of the query\<close>

text \<open>
  The resolvers of \<^verbatim>\<open>excerpt(pruneLength: n)\<close> and \<^verbatim>\<open>html\<close> belong to the markdown
  transformer plugin and are not part of the repository. They are parameters of the
  model: \<open>deriveExcerpt R body n\<close> is the excerpt of \<open>body\<close> pruned to \<open>n\<close>,
  \<open>renderHtml R body\<close> the rendered markup.
\<close>

record resolvers =
  deriveExcerpt :: "string \<Rightarrow> nat \<Rightarrow> string"
  renderHtml :: "string \<Rightarrow> string"

subsection \<open>The date formatter\<close>

text \<open>
  Modelled from the spec: the resolver of \<^verbatim>\<open>date(formatString: ...)\<close>, which is the
  framework's and not in the repository. The spec reads the display pattern as: \<^verbatim>\<open>MMMM\<close>
  the full month name, \<^verbatim>\<open>DD\<close> the zero-padded day, \<^verbatim>\<open>YYYY\<close> the four-digit year; every
  other character of the pattern stands for itself.
\<close>

definition digit_char :: "nat \<Rightarrow> char" where
  "digit_char n = ''0123456789'' ! (n mod 10)"

fun decimal :: "nat \<Rightarrow> string" where
  "decimal n = (if n < 10 then [digit_char n] else decimal (n div 10) @ [digit_char (n mod 10)])"

declare decimal.simps [simp del]

text \<open>Modelled from the spec: zero-padding of a number to a width (\<^verbatim>\<open>DD\<close>, \<^verbatim>\<open>YYYY\<close>).\<close>

definition zeroFill :: "nat \<Rightarrow> nat \<Rightarrow> string" where
  "zeroFill n width = replicate (width - length (decimal n)) (CHR ''0'') @ decimal n"

text \<open>Modelled from the spec: the full month name (\<^verbatim>\<open>MMMM\<close>).\<close>

fun monthName :: "month_of_year \<Rightarrow> string" where
  "monthName January = ''January''"
| "monthName February = ''February''"
| "monthName March = ''March''"
| "monthName April = ''April''"
| "monthName May = ''May''"
| "monthName June = ''June''"
| "monthName July = ''July''"
| "monthName August = ''August''"
| "monthName September = ''September''"
| "monthName October = ''October''"
| "monthName November = ''November''"
| "monthName December = ''December''"

text \<open>
  Modelled from the spec: the pattern interpreter behind \<^verbatim>\<open>formatString\<close>. The second
  argument of \<open>format_tokens\<close> counts the pattern characters still to skip after a token
  has been replaced.
\<close>

fun format_tokens :: "calendar_date \<Rightarrow> nat \<Rightarrow> string \<Rightarrow> string" where
  "format_tokens d k [] = []"
| "format_tokens d (Suc k) (c # cs) = format_tokens d k cs"
| "format_tokens d 0 (c # cs) =
     (if take 4 (c # cs) = ''MMMM'' then monthName (month d) @ format_tokens d 3 cs
      else if take 4 (c # cs) = ''YYYY'' then zeroFill (year d) 4 @ format_tokens d 3 cs
      else if take 2 (c # cs) = ''DD'' then zeroFill (day d) 2 @ format_tokens d 1 cs
      else c # format_tokens d 0 cs)"

text \<open>Modelled from the spec: the date resolver, a date formatted by a display pattern.\<close>

definition formatDate :: "string \<Rightarrow> calendar_date \<Rightarrow> string" where
  "formatDate formatString d = format_tokens d 0 formatString"

section \<open>The page query\<close>

text \<open>
  \<^verbatim>\<open>
  query BlogPostBySlug($slug: String!) {
    site { siteMetadata { title } }
    markdownRemark(fields: { slug: { eq: $slug } }) {
      id
      excerpt(pruneLength: 160)
      html
      frontmatter { title  date(formatString: "MMMM DD, YYYY")  description }
    }
  }
  \<close>
  \<open>resolve\<close> is the selection set on one node; \<open>pageQuery\<close> runs the query on the
  nodes of the graph: the first node whose slug equals \<^verbatim>\<open>$slug\<close>, or \<^verbatim>\<open>null\<close>.
\<close>

definition resolve :: "resolvers \<Rightarrow> markdown_node \<Rightarrow> remark_record" where
  "resolve R n =
     \<lparr> remark_id = node_id n,
       excerpt = deriveExcerpt R (rawBody n) 160,
       html = renderHtml R (rawBody n),
       frontmatter =
         \<lparr> title = title (node_frontmatter n),
           date = formatDate ''MMMM DD, YYYY'' (date (node_frontmatter n)),
           description = description (node_frontmatter n) \<rparr> \<rparr>"

definition pageQuery ::
    "resolvers \<Rightarrow> siteMetadata_record \<Rightarrow> markdown_node list \<Rightarrow> string \<Rightarrow> data_record" where
  "pageQuery R meta nodes slug_arg =
     \<lparr> markdownRemark = map_option (resolve R) (find (\<lambda>n. slug n = slug_arg) nodes),
       site = \<lparr> siteMetadata = meta \<rparr> \<rparr>"

section \<open>The template\<close>

text \<open>
  The element tree a component returns: an element has a type (a tag or a component
  name), its props in the order written, and its children.
\<close>

datatype prop_value =
  Str string
  | Loc location_record
  | InnerHTML string

datatype vnode =
  Text string
  | Element string "(string \<times> prop_value) list" "vnode list"

text \<open>The class names imported from \<^verbatim>\<open>blog-post.module.scss\<close>, which is not in the repository.\<close>

record styles_record =
  Header :: string
  HeaderTitle :: string
  HeaderDate :: string

text \<open>Reading a property of \<^verbatim>\<open>null\<close> throws a TypeError.\<close>

datatype error = TypeError

text \<open>
  JavaScript's \<^verbatim>\<open>a || b\<close> on a nullable string \<open>a\<close>: \<^verbatim>\<open>null\<close> and the empty string are
  falsy, every other string is truthy.
\<close>

definition js_or :: "string option \<Rightarrow> string \<Rightarrow> string" where
  "js_or a b = (case a of None \<Rightarrow> b | Some s \<Rightarrow> if s = [] then b else s)"

text \<open>
  \<^verbatim>\<open>
  const BlogPostTemplate = ({ data, location }) => {
    const post = data.markdownRemark
    const siteTitle = data.site.siteMetadata.title
    return (
      <Layout location={location} title={siteTitle}>
        <SEO title={post.frontmatter.title}
             description={post.frontmatter.description || post.excerpt} />
        <article>
          <header className={styles.Header}>
            <h1 className={styles.HeaderTitle}>{post.frontmatter.title}</h1>
            <p className={styles.HeaderDate}>{post.frontmatter.date}</p>
          </header>
          <section dangerouslySetInnerHTML={{ __html: post.html }} />
          <footer></footer>
        </article>
      </Layout>
    )
  }
  \<close>
  The first read of \<^verbatim>\<open>post.frontmatter\<close> throws when \<^verbatim>\<open>post\<close> is \<^verbatim>\<open>null\<close>.
\<close>

definition BlogPostTemplate ::
    "styles_record \<Rightarrow> data_record \<Rightarrow> location_record \<Rightarrow> error + vnode" where
  "BlogPostTemplate styles data location =
     (let post = markdownRemark data;
          siteTitle = site_title (siteMetadata (site data))
      in case post of
           None \<Rightarrow> Inl TypeError
         | Some post \<Rightarrow>
             Inr (Element ''Layout'' [(''location'', Loc location), (''title'', Str siteTitle)]
               [ Element ''SEO''
                   [ (''title'', Str (title (frontmatter post))),
                     (''description'',
                        Str (js_or (description (frontmatter post)) (excerpt post))) ]
                   [],
                 Element ''article'' []
                   [ Element ''header'' [(''className'', Str (Header styles))]
                       [ Element ''h1'' [(''className'', Str (HeaderTitle styles))]
                           [Text (title (frontmatter post))],
                         Element ''p'' [(''className'', Str (HeaderDate styles))]
                           [Text (date (frontmatter post))] ],
                     Element ''section'' [(''dangerouslySetInnerHTML'', InnerHTML (html post))] [],
                     Element ''footer'' [] [] ] ]))"

section \<open>Reading a rendered page\<close>

text \<open>
  The first element of a given type in a tree (depth first, in document order), the props
  and the children of an element.
\<close>

fun find_elem :: "string \<Rightarrow> vnode \<Rightarrow> vnode option"
  and find_elems :: "string \<Rightarrow> vnode list \<Rightarrow> vnode option" where
  "find_elem t (Text s) = None"
| "find_elem t (Element n ps cs) = (if n = t then Some (Element n ps cs) else find_elems t cs)"
| "find_elems t [] = None"
| "find_elems t (c # cs) = (case find_elem t c of Some e \<Rightarrow> Some e | None \<Rightarrow> find_elems t cs)"

fun props :: "vnode \<Rightarrow> (string \<times> prop_value) list" where
  "props (Text s) = []"
| "props (Element n ps cs) = ps"

fun children :: "vnode \<Rightarrow> vnode list" where
  "children (Text s) = []"
| "children (Element n ps cs) = cs"

definition get_prop :: "string \<Rightarrow> string \<Rightarrow> vnode \<Rightarrow> prop_value option" where
  "get_prop t key page = (case find_elem t page of None \<Rightarrow> None | Some e \<Rightarrow> map_of (props e) key)"

definition get_children :: "string \<Rightarrow> vnode \<Rightarrow> vnode list" where
  "get_children t page = (case find_elem t page of None \<Rightarrow> [] | Some e \<Rightarrow> children e)"

section \<open>Example content\<close>

text \<open>
  The post \<^verbatim>\<open>Manage HTTP Cookie in Go with Cookie Jar\<close> of the repository (dated
  2021-02-06), a post whose description is present but empty, resolvers to run the query
  with, the site's metadata and a table of class names.
\<close>

definition cookie_jar_node :: markdown_node where
  "cookie_jar_node =
     \<lparr> node_id = ''1'', slug = ''/cookie-jar/'',
       rawBody = ''If we provide a jar to http.Client, the jar is used to insert relevant cookies.'',
       node_frontmatter =
         \<lparr> title = ''Manage HTTP Cookie in Go with Cookie Jar'',
           date = \<lparr> year = 2021, month = February, day = 6 \<rparr>,
           description = Some ''Manage HTTP Cookie in Go with Cookie Jar'' \<rparr> \<rparr>"

definition blank_description_node :: markdown_node where
  "blank_description_node =
     \<lparr> node_id = ''2'', slug = ''/notes/'',
       rawBody = ''Short notes.'',
       node_frontmatter =
         \<lparr> title = ''Notes'',
           date = \<lparr> year = 2021, month = April, day = 7 \<rparr>,
           description = Some [] \<rparr> \<rparr>"

definition plain_resolvers :: resolvers where
  "plain_resolvers =
     \<lparr> deriveExcerpt = (\<lambda>body n. take n body),
       renderHtml = (\<lambda>body. ''<p>'' @ body @ ''</p>'') \<rparr>"

definition blog_meta :: siteMetadata_record where
  "blog_meta = \<lparr> site_title = ''Blog'' \<rparr>"

definition module_styles :: styles_record where
  "module_styles = \<lparr> Header = ''Header'', HeaderTitle = ''HeaderTitle'', HeaderDate = ''HeaderDate'' \<rparr>"

section \<open>Lookup by slug\<close>

lemma find_slug_None: "s \<notin> slug ` set nodes \<Longrightarrow> find (\<lambda>n. slug n = s) nodes = None"
  by (induction nodes) auto

text \<open>Among nodes with pairwise different slugs, the lookup of a node's slug finds that node.\<close>

lemma find_slug_distinct:
  "distinct (map slug nodes) \<Longrightarrow> n \<in> set nodes \<Longrightarrow> find (\<lambda>m. slug m = slug n) nodes = Some n"
  by (induction nodes) auto

lemma pageQuery_found:
  "find (\<lambda>n. slug n = s) nodes = Some n \<Longrightarrow>
   pageQuery R meta nodes s = \<lparr>markdownRemark = Some (resolve R n), site = \<lparr>siteMetadata = meta\<rparr>\<rparr>"
  by (simp add: pageQuery_def)

section \<open>The tree rendered for a record\<close>

lemma template_on_record:
  "BlogPostTemplate st \<lparr>markdownRemark = Some post, site = s\<rparr> loc =
     Inr (Element ''Layout'' [(''location'', Loc loc), (''title'', Str (site_title (siteMetadata s)))]
       [ Element ''SEO''
           [ (''title'', Str (title (frontmatter post))),
             (''description'', Str (js_or (description (frontmatter post)) (excerpt post))) ]
           [],
         Element ''article'' []
           [ Element ''header'' [(''className'', Str (Header st))]
               [ Element ''h1'' [(''className'', Str (HeaderTitle st))]
                   [Text (title (frontmatter post))],
                 Element ''p'' [(''className'', Str (HeaderDate st))]
                   [Text (date (frontmatter post))] ],
             Element ''section'' [(''dangerouslySetInnerHTML'', InnerHTML (html post))] [],
             Element ''footer'' [] [] ] ])"
  by (simp add: BlogPostTemplate_def)

section \<open>Digits of the day and the year\<close>

lemma digit_char_0: "digit_char 0 = CHR ''0''"
  by (simp add: digit_char_def)

lemma digit_char_mod: "digit_char (n mod 10) = digit_char n"
  by (simp add: digit_char_def)

lemma decimal_small: "n < 10 \<Longrightarrow> decimal n = [digit_char n]"
  by (simp add: decimal.simps)

lemma decimal_large: "10 \<le> n \<Longrightarrow> decimal n = decimal (n div 10) @ [digit_char n]"
  by (subst decimal.simps) (simp add: digit_char_mod)

lemma decimal_2: "10 \<le> n \<Longrightarrow> n < 100 \<Longrightarrow> decimal n = [digit_char (n div 10), digit_char n]"
  by (simp add: decimal_large decimal_small)

lemma decimal_3:
  assumes "100 \<le> n" and "n < 1000"
  shows "decimal n = [digit_char (n div 100), digit_char (n div 10), digit_char n]"
proof -
  from assms have "10 \<le> n" and "10 \<le> n div 10" and "n div 10 < 100"
    by simp_all
  moreover have "n div 10 div 10 = n div 100"
    by (simp add: div_mult2_eq [symmetric])
  ultimately show ?thesis
    by (simp add: decimal_large [of n] decimal_2)
qed

lemma decimal_4:
  assumes "1000 \<le> n" and "n < 10000"
  shows "decimal n =
    [digit_char (n div 1000), digit_char (n div 100), digit_char (n div 10), digit_char n]"
proof -
  from assms have "10 \<le> n" and "100 \<le> n div 10" and "n div 10 < 1000"
    by simp_all
  moreover have "n div 10 div 100 = n div 1000" and "n div 10 div 10 = n div 100"
    by (simp_all add: div_mult2_eq [symmetric])
  ultimately show ?thesis
    by (simp add: decimal_large [of n] decimal_3)
qed

lemma zeroFill_2:
  assumes "n < 100"
  shows "zeroFill n 2 = [digit_char (n div 10), digit_char (n mod 10)]"
proof (cases "n < 10")
  case True
  then show ?thesis by (simp add: zeroFill_def decimal_small digit_char_0 digit_char_mod)
next
  case False
  with assms show ?thesis by (simp add: zeroFill_def decimal_2 digit_char_mod)
qed

lemma zeroFill_4:
  assumes "n < 10000"
  shows "zeroFill n 4 =
    [digit_char (n div 1000), digit_char (n div 100 mod 10),
     digit_char (n div 10 mod 10), digit_char (n mod 10)]"
proof -
  consider "n < 10" | "10 \<le> n" "n < 100" | "100 \<le> n" "n < 1000" | "1000 \<le> n"
    by linarith
  then have "zeroFill n 4 =
    [digit_char (n div 1000), digit_char (n div 100), digit_char (n div 10), digit_char n]"
  proof cases
    case 1
    have "replicate (4 - Suc 0) (CHR ''0'') = ''000''" by (simp add: numeral_eq_Suc)
    with 1 show ?thesis by (simp add: zeroFill_def decimal_small digit_char_0)
  next
    case 2
    have "replicate (4 - Suc (Suc 0)) (CHR ''0'') = ''00''" by (simp add: numeral_eq_Suc)
    with 2 show ?thesis by (simp add: zeroFill_def decimal_2 digit_char_0)
  next
    case 3
    have "replicate (4 - Suc (Suc (Suc 0))) (CHR ''0'') = ''0''" by (simp add: numeral_eq_Suc)
    with 3 show ?thesis by (simp add: zeroFill_def decimal_3 digit_char_0)
  next
    case 4
    with assms show ?thesis by (simp add: zeroFill_def decimal_4)
  qed
  then show ?thesis by (simp only: digit_char_mod)
qed

lemma format_pattern:
  "formatDate ''MMMM DD, YYYY'' d =
     monthName (month d) @ '' '' @ zeroFill (day d) 2 @ '', '' @ zeroFill (year d) 4"
  by (simp add: formatDate_def numeral_3_eq_3)

section \<open>The SEO description\<close>

text \<open>
  Claim C1. For the record a slug selects, the description handed to the SEO component is
  the record's description when that is a non-empty string, and the excerpt of the raw
  body pruned to 160 when the description is absent or the empty string: an empty
  description falls back exactly as an absent one does.
\<close>

theorem seo_description_fallback:
  assumes "find (\<lambda>n. slug n = s) nodes = Some n"
  shows "\<exists>page. BlogPostTemplate st (pageQuery R meta nodes s) loc = Inr page \<and>
    get_prop ''SEO'' ''description'' page =
      Some (Str (case description (node_frontmatter n) of
                   None \<Rightarrow> deriveExcerpt R (rawBody n) 160
                 | Some d \<Rightarrow> if d = [] then deriveExcerpt R (rawBody n) 160 else d))"
  using assms
  by (simp add: pageQuery_found template_on_record get_prop_def js_or_def resolve_def)

theorem seo_description_fallback_witness:
  "find (\<lambda>n. slug n = ''/notes/'') [cookie_jar_node, blank_description_node]
     = Some blank_description_node \<and>
   (\<exists>page. BlogPostTemplate module_styles
        (pageQuery plain_resolvers blog_meta [cookie_jar_node, blank_description_node] ''/notes/'')
        \<lparr>pathname = ''/notes/''\<rparr> = Inr page \<and>
      get_prop ''SEO'' ''description'' page = Some (Str ''Short notes.''))"
proof -
  have h: "find (\<lambda>n. slug n = ''/notes/'') [cookie_jar_node, blank_description_node]
      = Some blank_description_node"
    by (simp add: cookie_jar_node_def blank_description_node_def)
  from seo_description_fallback [OF h, of module_styles plain_resolvers blog_meta
      "\<lparr>pathname = ''/notes/''\<rparr>"]
  show ?thesis using h by (simp add: blank_description_node_def plain_resolvers_def)
qed

section \<open>A slug without a record\<close>

text \<open>
  Claim C3. When no node has the requested slug, the query yields no record
  (\<^verbatim>\<open>markdownRemark\<close> is \<^verbatim>\<open>null\<close>), and the template run on that result produces no
  page: it ends in the error, which stops the build of that page.
\<close>

theorem missing_slug_is_fatal:
  assumes "s \<notin> slug ` set nodes"
  shows "markdownRemark (pageQuery R meta nodes s) = None \<and>
    BlogPostTemplate st (pageQuery R meta nodes s) loc = Inl TypeError"
  using find_slug_None [OF assms] by (simp add: pageQuery_def BlogPostTemplate_def)

theorem missing_slug_is_fatal_witness:
  "''/no-such-post/'' \<notin> slug ` set [cookie_jar_node] \<and>
   markdownRemark (pageQuery plain_resolvers blog_meta [cookie_jar_node] ''/no-such-post/'') = None \<and>
   BlogPostTemplate module_styles
     (pageQuery plain_resolvers blog_meta [cookie_jar_node] ''/no-such-post/'')
     \<lparr>pathname = ''/no-such-post/''\<rparr> = Inl TypeError"
proof -
  have h: "''/no-such-post/'' \<notin> slug ` set [cookie_jar_node]"
    by (simp add: cookie_jar_node_def)
  from missing_slug_is_fatal [OF h] show ?thesis using h by blast
qed

section \<open>The date in the header\<close>

text \<open>
  Claim C6. For the record a slug selects, the header's date paragraph holds the record's
  date formatted by the pattern \<^verbatim>\<open>MMMM DD, YYYY\<close>: the full month name, a space, the day
  as two digits (zero-padded), a comma and a space, and the year as four digits. The day
  is taken up to 31 and the year up to 9999.
\<close>

theorem header_date_format:
  assumes "find (\<lambda>n. slug n = s) nodes = Some n"
    and "date (node_frontmatter n) = d"
    and "day d \<le> 31"
    and "year d \<le> 9999"
  shows "\<exists>page. BlogPostTemplate st (pageQuery R meta nodes s) loc = Inr page \<and>
    get_children ''p'' page = [Text (formatDate ''MMMM DD, YYYY'' d)] \<and>
    formatDate ''MMMM DD, YYYY'' d =
      monthName (month d) @ '' '' @
      [digit_char (day d div 10), digit_char (day d mod 10)] @ '', '' @
      [digit_char (year d div 1000), digit_char (year d div 100 mod 10),
       digit_char (year d div 10 mod 10), digit_char (year d mod 10)]"
proof -
  from assms(3) have "zeroFill (day d) 2 = [digit_char (day d div 10), digit_char (day d mod 10)]"
    by (simp add: zeroFill_2)
  moreover from assms(4) have "zeroFill (year d) 4 =
      [digit_char (year d div 1000), digit_char (year d div 100 mod 10),
       digit_char (year d div 10 mod 10), digit_char (year d mod 10)]"
    by (simp add: zeroFill_4)
  ultimately have "formatDate ''MMMM DD, YYYY'' d =
      monthName (month d) @ '' '' @
      [digit_char (day d div 10), digit_char (day d mod 10)] @ '', '' @
      [digit_char (year d div 1000), digit_char (year d div 100 mod 10),
       digit_char (year d div 10 mod 10), digit_char (year d mod 10)]"
    by (simp only: format_pattern)
  moreover have "\<exists>page. BlogPostTemplate st (pageQuery R meta nodes s) loc = Inr page \<and>
      get_children ''p'' page = [Text (formatDate ''MMMM DD, YYYY'' d)]"
    using assms(1,2)
    by (simp add: pageQuery_found template_on_record get_children_def resolve_def)
  ultimately show ?thesis by blast
qed

theorem header_date_format_witness:
  "find (\<lambda>n. slug n = ''/cookie-jar/'') [cookie_jar_node] = Some cookie_jar_node \<and>
   date (node_frontmatter cookie_jar_node) = \<lparr> year = 2021, month = February, day = 6 \<rparr> \<and>
   day \<lparr> year = 2021, month = February, day = 6 \<rparr> \<le> 31 \<and>
   year \<lparr> year = 2021, month = February, day = 6 \<rparr> \<le> 9999 \<and>
   (\<exists>page. BlogPostTemplate module_styles
        (pageQuery plain_resolvers blog_meta [cookie_jar_node] ''/cookie-jar/'')
        \<lparr>pathname = ''/cookie-jar/''\<rparr> = Inr page \<and>
      get_children ''p'' page = [Text ''February 06, 2021''])"
proof -
  let ?d = "\<lparr> year = 2021, month = February, day = 6 \<rparr>"
  have h1: "find (\<lambda>n. slug n = ''/cookie-jar/'') [cookie_jar_node] = Some cookie_jar_node"
    and h2: "date (node_frontmatter cookie_jar_node) = ?d"
    and h3: "day ?d \<le> 31"
    and h4: "year ?d \<le> 9999"
    by (simp_all add: cookie_jar_node_def)
  from header_date_format [OF h1 h2 h3 h4, of module_styles plain_resolvers blog_meta
      "\<lparr>pathname = ''/cookie-jar/''\<rparr>"]
  obtain page where
    "BlogPostTemplate module_styles
        (pageQuery plain_resolvers blog_meta [cookie_jar_node] ''/cookie-jar/'')
        \<lparr>pathname = ''/cookie-jar/''\<rparr> = Inr page"
    and "get_children ''p'' page = [Text (formatDate ''MMMM DD, YYYY'' ?d)]"
    and "formatDate ''MMMM DD, YYYY'' ?d =
      monthName (month ?d) @ '' '' @
      [digit_char (day ?d div 10), digit_char (day ?d mod 10)] @ '', '' @
      [digit_char (year ?d div 1000), digit_char (year ?d div 100 mod 10),
       digit_char (year ?d div 10 mod 10), digit_char (year ?d mod 10)]"
    by blast
  moreover have "monthName (month ?d) @ '' '' @
      [digit_char (day ?d div 10), digit_char (day ?d mod 10)] @ '', '' @
      [digit_char (year ?d div 1000), digit_char (year ?d div 100 mod 10),
       digit_char (year ?d div 10 mod 10), digit_char (year ?d mod 10)] = ''February 06, 2021''"
    by (simp add: digit_char_def)
  ultimately show ?thesis using h1 h2 h3 h4 by auto
qed

section \<open>The body\<close>

text \<open>
  Claim C7. For every record, the markup the template sets as the inner HTML of the
  body's section is the record's \<^verbatim>\<open>html\<close> field itself, unchanged, and the section has no
  other content.
\<close>

theorem body_html_verbatim:
  "\<exists>page. BlogPostTemplate st \<lparr>markdownRemark = Some post, site = s\<rparr> loc = Inr page \<and>
     get_prop ''section'' ''dangerouslySetInnerHTML'' page = Some (InnerHTML (html post)) \<and>
     get_children ''section'' page = []"
  by (simp add: template_on_record get_prop_def get_children_def)

section \<open>An absent record\<close>

text \<open>
  Claim C8. The template returns a page exactly when the query's record is present. When
  it is absent the template faults with the TypeError of the field access; no other
  outcome (such as a not-found value) exists.
\<close>

theorem template_faults_iff_record_absent:
  "(BlogPostTemplate st d loc = Inl TypeError) = (markdownRemark d = None) \<and>
   (\<exists>page. BlogPostTemplate st d loc = Inr page) = (markdownRemark d \<noteq> None)"
  by (cases "markdownRemark d") (simp_all add: BlogPostTemplate_def)

section \<open>The two titles\<close>

text \<open>
  Claim C9. On every rendered page the title handed to the SEO component and the title in
  the header's heading are the record's front-matter title, and the site's title is the
  title prop of the layout. The site's title goes nowhere else: whatever the site's title
  is, the children of the layout are the same.
\<close>

theorem titles_not_interchanged:
  "\<exists>page.
     BlogPostTemplate st
       \<lparr>markdownRemark = Some post, site = \<lparr>siteMetadata = \<lparr>site_title = t\<rparr>\<rparr>\<rparr> loc = Inr page \<and>
     get_prop ''SEO'' ''title'' page = Some (Str (title (frontmatter post))) \<and>
     get_children ''h1'' page = [Text (title (frontmatter post))] \<and>
     props page = [(''location'', Loc loc), (''title'', Str t)] \<and>
     (\<forall>t'. \<exists>page'.
        BlogPostTemplate st
          \<lparr>markdownRemark = Some post, site = \<lparr>siteMetadata = \<lparr>site_title = t'\<rparr>\<rparr>\<rparr> loc = Inr page' \<and>
        children page' = children page)"
  by (simp add: template_on_record get_prop_def get_children_def)

end
